theory Spec2Isabelle
  imports Main
begin

section \<open>The study timer of EduSync (pages/StudyTimer.tsx)\<close>

text \<open>
  The component \<open>StudyTimer\<close> keeps its state in React \<open>useState\<close> cells and changes it
  only in its event handlers, in the callback of a one-second interval and in the part of
  \<open>handleSessionComplete\<close> that runs after the awaited insert. A handler reads the cells
  of the render it was created in and queues its writes, which React applies together. The
  click handlers are those of the render on the page, so each is a function from the cells
  shown to the cells after its writes. The interval keeps the handler of the render in
  which it was created, and the code after the \<open>await\<close> runs when the insert answers; for
  both the model keeps the captured cells apart from the cells on the page.
  JavaScript numbers are modelled as \<open>int\<close>: every number of the component is a small
  integer (minutes chosen from fixed lists, seconds, a counter).
\<close>

subsection \<open>Data\<close>

text \<open>\<open>useState<'study' | 'break' | 'longBreak'>\<close>\<close>

datatype session = Study | Break | LongBreak

text \<open>\<open>interface TimerSettings\<close>\<close>

record TimerSettings =
  studyDuration :: int
  breakDuration :: int
  longBreakDuration :: int
  sessionsUntilLongBreak :: int

text \<open>
  \<open>interface SessionData\<close> together with the \<open>user_id\<close> that the insert adds: the row
  handed to \<open>supabase.from('study_sessions').insert\<close>. The optional \<open>subject\<close> is an
  \<open>option\<close>.
\<close>

record SessionRow =
  duration :: int
  type :: string
  rowSubject :: "string option"
  user_id :: string

text \<open>The \<open>useState\<close> cells of the component.\<close>

record StudyTimer =
  isRunning :: bool
  isPaused :: bool
  timeLeft :: int
  currentSession :: session
  sessionCount :: int
  subject :: string
  settings :: TimerSettings

text \<open>
  The mounted component: the cells on the page; the cells captured by the handler of the
  running interval (\<open>None\<close> when there is no interval); the cells captured by each run of
  \<open>handleSessionComplete\<close> that is waiting for its insert, oldest first; and the user of
  \<open>useAuth\<close> (its id, \<open>None\<close> for \<open>null\<close>).
\<close>

record App =
  page :: StudyTimer
  interval :: "StudyTimer option"
  pending :: "StudyTimer list"
  user :: "string option"

text \<open>
  The calls a handler makes to its collaborators, in the order it makes them. The \<open>gsap\<close>
  animations change no state and are left out.
\<close>

datatype effect =
    Insert SessionRow
  | ConsoleError string string
  | FetchRecentSessions
  | Notification string
  | Toast string

subsection \<open>Initial state\<close>

definition initialSettings :: TimerSettings where
  "initialSettings =
     \<lparr>studyDuration = 25, breakDuration = 5, longBreakDuration = 15,
      sessionsUntilLongBreak = 4\<rparr>"

definition initial :: StudyTimer where
  "initial =
     \<lparr>isRunning = False, isPaused = False, timeLeft = 25 * 60, currentSession = Study,
      sessionCount = 0, subject = [], settings = initialSettings\<rparr>"

subsection \<open>Handlers\<close>

text \<open>
  The \<open>default\<close> branch of the source's \<open>switch\<close> cannot be taken: the type has three
  values.
\<close>

fun getCurrentSessionDuration :: "StudyTimer \<Rightarrow> int" where
  "getCurrentSessionDuration s =
     (case currentSession s of
        Study \<Rightarrow> studyDuration (settings s)
      | Break \<Rightarrow> breakDuration (settings s)
      | LongBreak \<Rightarrow> longBreakDuration (settings s))"

definition handleStart :: "StudyTimer \<Rightarrow> StudyTimer" where
  "handleStart s = s\<lparr>isRunning := True, isPaused := False\<rparr>"

definition handlePause :: "StudyTimer \<Rightarrow> StudyTimer" where
  "handlePause s = s\<lparr>isPaused := \<not> isPaused s\<rparr>"

definition handleStop :: "StudyTimer \<Rightarrow> StudyTimer" where
  "handleStop s =
     s\<lparr>isRunning := False, isPaused := False,
       timeLeft := getCurrentSessionDuration s * 60\<rparr>"

text \<open>
  \<open>getCurrentSessionDuration()\<close> is called before \<open>setCurrentSession('study')\<close> takes
  effect: it reads the session of the state the handler was created in.
\<close>

definition handleReset :: "StudyTimer \<Rightarrow> StudyTimer" where
  "handleReset s =
     s\<lparr>isRunning := False, isPaused := False,
       timeLeft := getCurrentSessionDuration s * 60,
       currentSession := Study, sessionCount := 0\<rparr>"

text \<open>
  JavaScript's \<open>a % b\<close> on integers: \<open>NaN\<close> (here \<open>None\<close>) when \<open>b\<close> is zero, otherwise
  the remainder of the truncating division, with the sign of \<open>a\<close>.
\<close>

definition js_rem :: "int \<Rightarrow> int \<Rightarrow> int option" where
  "js_rem a b = (if b = 0 then None else Some (sgn a * (\<bar>a\<bar> mod \<bar>b\<bar>)))"

text \<open>\<open>`${currentSession === 'study' ? 'Study' : 'Break'} session finished.`\<close>\<close>

definition finishedMessage :: "session \<Rightarrow> string" where
  "finishedMessage c =
     (if c = Study then ''Study'' else ''Break'') @ '' session finished.''"

text \<open>
  \<open>handleSessionComplete\<close>, lines 177 to 205 (from "Determine next session type"): the
  reads are of the captured cells \<open>c\<close>, the writes go to the cells \<open>p\<close> now on the page.
  The browser notification is shown when permission is granted at that moment, the toast
  always. Returned are the cells after the writes and the calls made.
\<close>

definition handleSessionComplete_rest ::
    "StudyTimer \<Rightarrow> bool \<Rightarrow> StudyTimer \<Rightarrow> StudyTimer \<times> effect list" where
  "handleSessionComplete_rest c granted p =
     ((if currentSession c = Study then
         (let newSessionCount = sessionCount c + 1 in
          if js_rem newSessionCount (sessionsUntilLongBreak (settings c)) = Some 0
          then p\<lparr>sessionCount := newSessionCount, currentSession := LongBreak,
                 timeLeft := longBreakDuration (settings c) * 60\<rparr>
          else p\<lparr>sessionCount := newSessionCount, currentSession := Break,
                 timeLeft := breakDuration (settings c) * 60\<rparr>)
       else p\<lparr>currentSession := Study, timeLeft := studyDuration (settings c) * 60\<rparr>),
      (if granted then [Notification (finishedMessage (currentSession c))] else [])
      @ [Toast (finishedMessage (currentSession c))])"

text \<open>
  \<open>handleSessionComplete\<close> from its call to the \<open>await\<close> (lines 152 to 168), run by the
  handler that captured \<open>c\<close>. The timer is stopped. When \<open>c\<close> shows a study session and
  a user is signed in, the row is built from \<open>c\<close> and handed to the insert
  (\<open>subject || undefined\<close> leaves the subject out when it is the empty string), and the
  run waits for the answer. Otherwise nothing is awaited and the rest runs at once.
\<close>

definition handleSessionComplete :: "StudyTimer \<Rightarrow> bool \<Rightarrow> App \<Rightarrow> App \<times> effect list" where
  "handleSessionComplete c granted a =
     (let stopped = (page a)\<lparr>isRunning := False, isPaused := False\<rparr> in
      case (currentSession c, user a) of
        (Study, Some uid) \<Rightarrow>
          (a\<lparr>page := stopped, pending := pending a @ [c]\<rparr>,
           [Insert \<lparr>duration = studyDuration (settings c), type = ''study'',
                    rowSubject = (if subject c = [] then None else Some (subject c)),
                    user_id = uid\<rparr>])
      | _ \<Rightarrow>
          (a\<lparr>page := fst (handleSessionComplete_rest c granted stopped)\<rparr>,
           snd (handleSessionComplete_rest c granted stopped)))"

text \<open>
  \<open>handleSessionComplete\<close> after the \<open>await\<close> (lines 170 to 205), when the insert of the
  run that captured \<open>c\<close> answers with \<open>err\<close> (\<open>None\<close> for success): an error is written to
  the console, a success refreshes the list of recent sessions; then the rest runs on the
  page as it is by then.
\<close>

definition handleSessionComplete_resume ::
    "StudyTimer \<Rightarrow> string option \<Rightarrow> bool \<Rightarrow> App \<Rightarrow> App \<times> effect list" where
  "handleSessionComplete_resume c err granted a =
     (a\<lparr>page := fst (handleSessionComplete_rest c granted (page a))\<rparr>,
      (case err of
         Some e \<Rightarrow> [ConsoleError ''Error saving session:'' e]
       | None \<Rightarrow> [FetchRecentSessions])
      @ snd (handleSessionComplete_rest c granted (page a)))"

text \<open>
  The callback of the interval: the updater
  \<open>prev \<Rightarrow> if prev \<le> 1 then (handleSessionComplete(); 0) else prev - 1\<close> on the remaining
  seconds of the page, with the \<open>handleSessionComplete\<close> of the render the interval was
  created in. The updater's \<open>0\<close> is written before the writes of the run it started.
  Without an interval nothing fires.
\<close>

definition tick :: "bool \<Rightarrow> App \<Rightarrow> App \<times> effect list" where
  "tick granted a =
     (case interval a of
        None \<Rightarrow> (a, [])
      | Some c \<Rightarrow>
          if timeLeft (page a) \<le> 1
          then handleSessionComplete c granted (a\<lparr>page := (page a)\<lparr>timeLeft := 0\<rparr>\<rparr>)
          else (a\<lparr>page := (page a)\<lparr>timeLeft := timeLeft (page a) - 1\<rparr>\<rparr>, []))"

text \<open>
  The effect with dependencies \<open>[isRunning, isPaused]\<close> (lines 53 to 74), run after a
  render whose cells were \<open>before\<close> in the render before: when neither dependency has
  changed nothing happens and a running interval keeps the handler it has; otherwise the
  old interval is cleared, and a new one is created with the handler of this render when
  the timer is running and not paused.
\<close>

definition useEffect_interval :: "StudyTimer \<Rightarrow> App \<Rightarrow> App" where
  "useEffect_interval before a =
     (if isRunning (page a) = isRunning before \<and> isPaused (page a) = isPaused before then a
      else a\<lparr>interval :=
               (if isRunning (page a) \<and> \<not> isPaused (page a) then Some (page a) else None)\<rparr>)"

text \<open>The \<open>onValueChange\<close> handlers of the three selects, applied to the parsed value.\<close>

definition onStudyDurationChange :: "int \<Rightarrow> StudyTimer \<Rightarrow> StudyTimer" where
  "onStudyDurationChange v s = s\<lparr>settings := (settings s)\<lparr>studyDuration := v\<rparr>\<rparr>"

definition onBreakDurationChange :: "int \<Rightarrow> StudyTimer \<Rightarrow> StudyTimer" where
  "onBreakDurationChange v s = s\<lparr>settings := (settings s)\<lparr>breakDuration := v\<rparr>\<rparr>"

definition onLongBreakDurationChange :: "int \<Rightarrow> StudyTimer \<Rightarrow> StudyTimer" where
  "onLongBreakDurationChange v s = s\<lparr>settings := (settings s)\<lparr>longBreakDuration := v\<rparr>\<rparr>"

text \<open>The \<open>onChange\<close> handler of the subject input.\<close>

definition onSubjectChange :: "string \<Rightarrow> StudyTimer \<Rightarrow> StudyTimer" where
  "onSubjectChange v s = s\<lparr>subject := v\<rparr>"

subsection \<open>The mounted page\<close>

text \<open>
  What can happen to the component: a click on one of its buttons, the interval firing
  (with the notification permission of that moment), the insert of a waiting run
  answering (which run, the error if any, the notification permission), a change of the
  subject input or of a select.
\<close>

datatype event =
    ClickStart
  | ClickPause
  | ClickStop
  | ClickReset
  | IntervalFires bool
  | InsertAnswers nat "string option" bool
  | ChangeSubject string
  | SelectStudyDuration int
  | SelectBreakDuration int
  | SelectLongBreakDuration int

text \<open>
  Which of them can happen: Start is rendered when \<open>!isRunning\<close> and Pause/Resume
  otherwise; Stop and Reset always; the subject input only during a study session and
  \<open>disabled={isRunning}\<close>; the selects are \<open>disabled={isRunning}\<close> and offer the listed
  values; the interval fires while it exists; an insert answers while a run waits for it.
\<close>

fun offered :: "App \<Rightarrow> event \<Rightarrow> bool" where
  "offered a ClickStart = (\<not> isRunning (page a))"
| "offered a ClickPause = isRunning (page a)"
| "offered a ClickStop = True"
| "offered a ClickReset = True"
| "offered a (IntervalFires granted) = (interval a \<noteq> None)"
| "offered a (InsertAnswers i err granted) = (i < length (pending a))"
| "offered a (ChangeSubject v) = (currentSession (page a) = Study \<and> \<not> isRunning (page a))"
| "offered a (SelectStudyDuration v) = (\<not> isRunning (page a) \<and> v \<in> set [15, 25, 30, 45, 60])"
| "offered a (SelectBreakDuration v) = (\<not> isRunning (page a) \<and> v \<in> set [5, 10, 15])"
| "offered a (SelectLongBreakDuration v) = (\<not> isRunning (page a) \<and> v \<in> set [15, 20, 30])"

text \<open>The handler of each event, with the calls it makes.\<close>

fun handle :: "event \<Rightarrow> App \<Rightarrow> App \<times> effect list" where
  "handle ClickStart a = (a\<lparr>page := handleStart (page a)\<rparr>, [])"
| "handle ClickPause a = (a\<lparr>page := handlePause (page a)\<rparr>, [])"
| "handle ClickStop a = (a\<lparr>page := handleStop (page a)\<rparr>, [])"
| "handle ClickReset a = (a\<lparr>page := handleReset (page a)\<rparr>, [])"
| "handle (IntervalFires granted) a = tick granted a"
| "handle (InsertAnswers i err granted) a =
     handleSessionComplete_resume (pending a ! i) err granted
       (a\<lparr>pending := take i (pending a) @ drop (Suc i) (pending a)\<rparr>)"
| "handle (ChangeSubject v) a = (a\<lparr>page := onSubjectChange v (page a)\<rparr>, [])"
| "handle (SelectStudyDuration v) a = (a\<lparr>page := onStudyDurationChange v (page a)\<rparr>, [])"
| "handle (SelectBreakDuration v) a = (a\<lparr>page := onBreakDurationChange v (page a)\<rparr>, [])"
| "handle (SelectLongBreakDuration v) a =
     (a\<lparr>page := onLongBreakDurationChange v (page a)\<rparr>, [])"

text \<open>An event: its handler, the render, and the effect of that render.\<close>

definition dispatch :: "event \<Rightarrow> App \<Rightarrow> App \<times> effect list" where
  "dispatch ev a = (useEffect_interval (page a) (fst (handle ev a)), snd (handle ev a))"

text \<open>
  A control that is not rendered, or is disabled, cannot be used: only an offered event
  changes anything.
\<close>

definition press :: "event \<Rightarrow> App \<Rightarrow> App \<times> effect list" where
  "press ev a = (if offered a ev then dispatch ev a else (a, []))"

text \<open>
  A sequence of events from a state: the state it leads to and all calls made, or \<open>None\<close>
  when one of the events is not offered where it comes.
\<close>

fun run :: "event list \<Rightarrow> App \<Rightarrow> (App \<times> effect list) option" where
  "run [] a = Some (a, [])"
| "run (ev # evs) a =
     (if offered a ev then
        (case run evs (fst (dispatch ev a)) of
           None \<Rightarrow> None
         | Some (b, fx) \<Rightarrow> Some (b, snd (dispatch ev a) @ fx))
      else None)"

text \<open>The interval firing once for each entry of a list, whenever it exists.\<close>

fun ticks :: "bool list \<Rightarrow> App \<Rightarrow> App" where
  "ticks [] a = a"
| "ticks (g # gs) a = ticks gs (fst (press (IntervalFires g) a))"

text \<open>The rows handed to the insert among the calls made.\<close>

fun inserts :: "effect list \<Rightarrow> SessionRow list" where
  "inserts [] = []"
| "inserts (Insert r # fx) = r # inserts fx"
| "inserts (_ # fx) = inserts fx"

subsection \<open>The page's route (App.tsx)\<close>

text \<open>
  \<open>StudyTimer\<close> is mounted only as the child of \<open>ProtectedRoute\<close>, which renders its
  children when \<open>useAuth\<close> has finished loading and gives a user, and otherwise shows a
  spinner or navigates to the sign-in page.
\<close>

datatype rendered = LoadingSpinner | NavigateToAuth | DashboardLayoutWithChildren

definition ProtectedRoute :: "string option \<Rightarrow> bool \<Rightarrow> rendered" where
  "ProtectedRoute usr loading =
     (if loading then LoadingSpinner
      else if usr = None then NavigateToAuth
      else DashboardLayoutWithChildren)"

text \<open>The component as mounted: the initial cells, no interval, no insert awaited.\<close>

definition mount :: "string option \<Rightarrow> App" where
  "mount u = \<lparr>page = initial, interval = None, pending = [], user = u\<rparr>"

text \<open>The states the page can be in: mounted by the route, or reached by an offered event.\<close>

inductive reachable :: "App \<Rightarrow> bool" where
  reachable_mount:
    "ProtectedRoute u False = DashboardLayoutWithChildren \<Longrightarrow> reachable (mount u)"
| reachable_dispatch: "reachable a \<Longrightarrow> offered a ev \<Longrightarrow> reachable (fst (dispatch ev a))"

subsection \<open>The cycle of the specification\<close>

text \<open>
  The cycle as the specification words it: a study session followed by a short break,
  \<open>sessionsUntilLongBreak - 1\<close> times, then one study session followed by the long break.
\<close>

definition cyclePattern :: "nat \<Rightarrow> session list" where
  "cyclePattern n = concat (replicate (n - 1) [Study, Break]) @ [Study, LongBreak]"

subsection \<open>Sequences of events used below\<close>

text \<open>
  Start, and the interval firing 1500 times: the first study session runs out and its
  insert is awaited.
\<close>

definition firstStudySession :: "event list" where
  "firstStudySession =
     ClickStart # replicate 1499 (IntervalFires False) @ [IntervalFires False]"

text \<open>The same, and then the insert answers with success.\<close>

definition firstStudySessionSaved :: "event list" where
  "firstStudySessionSaved = firstStudySession @ [InsertAnswers 0 None False]"

text \<open>Start is clicked again while the insert of the first study session is awaited.\<close>

definition startWhileSaving :: "event list" where
  "startWhileSaving = firstStudySession @ [ClickStart]"

text \<open>After that Start the insert answers with success before the interval fires.\<close>

definition firstBreakRunning :: "event list" where
  "firstBreakRunning = startWhileSaving @ [InsertAnswers 0 None False]"

text \<open>The interval then fires 299 times: the short break has one second left.\<close>

definition breakAlmostOver :: "event list" where
  "breakAlmostOver = firstBreakRunning @ replicate 299 (IntervalFires False)"

text \<open>The interval fires once more: the short break runs out.\<close>

definition breakRunsOut :: "event list" where
  "breakRunsOut = breakAlmostOver @ [IntervalFires False]"

text \<open>The insert this leads to answers with success.\<close>

definition breakOver :: "event list" where
  "breakOver = breakRunsOut @ [InsertAnswers 0 None False]"

section \<open>Runs of events\<close>

lemma run_then:
  "run xs a = Some (b, fx) \<Longrightarrow> run ys b = Some (c, fy) \<Longrightarrow> run (xs @ ys) a = Some (c, fx @ fy)"
proof (induction xs arbitrary: a fx)
  case Nil
  then show ?case by simp
next
  case (Cons ev xs)
  from Cons.prems(1) have shown: "offered a ev"
    by (simp split: if_splits)
  from Cons.prems(1) shown obtain fx' where
    tail: "run xs (fst (dispatch ev a)) = Some (b, fx')" and fx: "fx = snd (dispatch ev a) @ fx'"
    by (auto split: option.splits)
  have "run (xs @ ys) (fst (dispatch ev a)) = Some (c, fx' @ fy)"
    using Cons.IH [OF tail Cons.prems(2)] .
  then show ?case using shown fx by simp
qed

lemma run_reachable: "reachable a \<Longrightarrow> run evs a = Some (b, fx) \<Longrightarrow> reachable b"
proof (induction evs arbitrary: a fx)
  case Nil
  then show ?case by simp
next
  case (Cons ev evs)
  from Cons.prems(2) have shown: "offered a ev"
    by (simp split: if_splits)
  from Cons.prems(2) shown obtain fx' where
    tail: "run evs (fst (dispatch ev a)) = Some (b, fx')"
    by (auto split: option.splits)
  have "reachable (fst (dispatch ev a))"
    using Cons.prems(1) shown by (rule reachable.reachable_dispatch)
  then show ?case using tail by (rule Cons.IH)
qed

text \<open>
  While the interval exists and more than \<open>n\<close> seconds remain, its firing \<open>n\<close> times
  takes \<open>n\<close> seconds off the clock and does nothing else.
\<close>

lemma run_countdown:
  "interval a = Some c \<Longrightarrow> int n < timeLeft (page a) \<Longrightarrow>
     run (replicate n (IntervalFires g)) a
       = Some (a\<lparr>page := (page a)\<lparr>timeLeft := timeLeft (page a) - int n\<rparr>\<rparr>, [])"
proof (induction n arbitrary: a)
  case 0
  then show ?case by simp
next
  case (Suc n)
  let ?b = "a\<lparr>page := (page a)\<lparr>timeLeft := timeLeft (page a) - 1\<rparr>\<rparr>"
  have step: "dispatch (IntervalFires g) a = (?b, [])"
    using Suc.prems by (simp add: dispatch_def tick_def useEffect_interval_def)
  have "run (replicate n (IntervalFires g)) ?b
      = Some (?b\<lparr>page := (page ?b)\<lparr>timeLeft := timeLeft (page ?b) - int n\<rparr>\<rparr>, [])"
    using Suc.prems by (intro Suc.IH) simp_all
  then show ?case
    using Suc.prems step by (simp add: algebra_simps)
qed

lemma reachable_mount_u1: "reachable (mount (Some ''u1''))"
  by (rule reachable.reachable_mount) (simp add: ProtectedRoute_def)

lemma run_reset_mount: "run (ClickReset # evs) (mount u) = run evs (mount u)"
proof -
  have "dispatch ClickReset (mount u) = (mount u, [])"
    by (simp add: dispatch_def useEffect_interval_def handleReset_def mount_def initial_def
        initialSettings_def)
  then show ?thesis by (simp split: option.splits)
qed

text \<open>
  In every state the page can be in, the interval exists exactly while the timer is
  running and not paused, a paused timer is a running one, and a user is signed in.
\<close>

lemma reachable_consistent:
  "reachable a \<Longrightarrow>
     (interval a \<noteq> None) = (isRunning (page a) \<and> \<not> isPaused (page a))
     \<and> (isPaused (page a) \<longrightarrow> isRunning (page a)) \<and> user a \<noteq> None"
proof (induction rule: reachable.induct)
  case (reachable_mount u)
  then show ?case
    by (auto simp add: mount_def initial_def ProtectedRoute_def split: if_splits)
next
  case (reachable_dispatch a ev)
  show ?case
  proof (cases ev)
    case (IntervalFires g)
    then show ?thesis
      using reachable_dispatch
      by (auto simp add: dispatch_def useEffect_interval_def tick_def
          handleSessionComplete_def handleSessionComplete_rest_def Let_def
          split: option.splits session.splits if_splits)
  next
    case (InsertAnswers i err g)
    then show ?thesis
      using reachable_dispatch
      by (auto simp add: dispatch_def useEffect_interval_def handleSessionComplete_resume_def
          handleSessionComplete_rest_def Let_def split: if_splits)
  qed (use reachable_dispatch in \<open>auto simp add: dispatch_def useEffect_interval_def
        handleStart_def handlePause_def handleStop_def handleReset_def onSubjectChange_def
        onStudyDurationChange_def onBreakDurationChange_def onLongBreakDurationChange_def
        split: if_splits\<close>)
qed

subsection \<open>Where the sequences of events lead\<close>

lemma run_firstStudySession:
  "run firstStudySession (mount (Some ''u1''))
     = Some (\<lparr>page = initial\<lparr>timeLeft := 0\<rparr>, interval = None,
              pending = [initial\<lparr>isRunning := True\<rparr>], user = Some ''u1''\<rparr>,
             [Insert \<lparr>duration = 25, type = ''study'', rowSubject = None, user_id = ''u1''\<rparr>])"
proof -
  let ?p = "initial\<lparr>isRunning := True\<rparr>"
  let ?a1 = "\<lparr>page = ?p, interval = Some ?p, pending = [], user = Some ''u1''\<rparr>"
  let ?a1' = "\<lparr>page = ?p\<lparr>timeLeft := 1\<rparr>, interval = Some ?p, pending = [],
               user = Some ''u1''\<rparr>"
  have start: "run [ClickStart] (mount (Some ''u1'')) = Some (?a1, [])"
    by (simp add: mount_def dispatch_def useEffect_interval_def handleStart_def initial_def)
  have "run (replicate 1499 (IntervalFires False)) ?a1
      = Some (?a1\<lparr>page := (page ?a1)\<lparr>timeLeft := timeLeft (page ?a1) - int 1499\<rparr>\<rparr>, [])"
    by (rule run_countdown) (simp_all add: initial_def)
  then have down: "run (replicate 1499 (IntervalFires False)) ?a1 = Some (?a1', [])"
    by (simp add: initial_def)
  have last: "run [IntervalFires False] ?a1'
      = Some (\<lparr>page = initial\<lparr>timeLeft := 0\<rparr>, interval = None,
               pending = [?p], user = Some ''u1''\<rparr>,
              [Insert \<lparr>duration = 25, type = ''study'', rowSubject = None, user_id = ''u1''\<rparr>])"
    by (simp add: dispatch_def tick_def handleSessionComplete_def useEffect_interval_def
        initial_def initialSettings_def)
  show ?thesis
    unfolding firstStudySession_def
    using run_then [OF start run_then [OF down last]] by simp
qed

lemma run_firstStudySessionSaved:
  "run firstStudySessionSaved (mount (Some ''u1''))
     = Some (\<lparr>page = initial\<lparr>currentSession := Break, sessionCount := 1, timeLeft := 300\<rparr>,
              interval = None, pending = [], user = Some ''u1''\<rparr>,
             [Insert \<lparr>duration = 25, type = ''study'', rowSubject = None, user_id = ''u1''\<rparr>,
              FetchRecentSessions, Toast ''Study session finished.''])"
proof -
  have "run [InsertAnswers 0 None False]
          \<lparr>page = initial\<lparr>timeLeft := 0\<rparr>, interval = None,
            pending = [initial\<lparr>isRunning := True\<rparr>], user = Some ''u1''\<rparr>
      = Some (\<lparr>page = initial\<lparr>currentSession := Break, sessionCount := 1, timeLeft := 300\<rparr>,
               interval = None, pending = [], user = Some ''u1''\<rparr>,
              [FetchRecentSessions, Toast ''Study session finished.''])"
    by (simp add: dispatch_def handleSessionComplete_resume_def handleSessionComplete_rest_def
        useEffect_interval_def js_rem_def finishedMessage_def initial_def initialSettings_def)
  then show ?thesis
    unfolding firstStudySessionSaved_def
    using run_then [OF run_firstStudySession] by simp
qed

lemma run_startWhileSaving:
  "run startWhileSaving (mount (Some ''u1''))
     = Some (\<lparr>page = initial\<lparr>timeLeft := 0, isRunning := True\<rparr>,
              interval = Some (initial\<lparr>timeLeft := 0, isRunning := True\<rparr>),
              pending = [initial\<lparr>isRunning := True\<rparr>], user = Some ''u1''\<rparr>,
             [Insert \<lparr>duration = 25, type = ''study'', rowSubject = None, user_id = ''u1''\<rparr>])"
proof -
  have "run [ClickStart]
          \<lparr>page = initial\<lparr>timeLeft := 0\<rparr>, interval = None,
            pending = [initial\<lparr>isRunning := True\<rparr>], user = Some ''u1''\<rparr>
      = Some (\<lparr>page = initial\<lparr>timeLeft := 0, isRunning := True\<rparr>,
               interval = Some (initial\<lparr>timeLeft := 0, isRunning := True\<rparr>),
               pending = [initial\<lparr>isRunning := True\<rparr>], user = Some ''u1''\<rparr>, [])"
    by (simp add: dispatch_def useEffect_interval_def handleStart_def initial_def)
  then show ?thesis
    unfolding startWhileSaving_def
    using run_then [OF run_firstStudySession] by simp
qed

lemma run_startWhileSaving_tick:
  "run (startWhileSaving @ [IntervalFires False]) (mount (Some ''u1''))
     = Some (\<lparr>page = initial\<lparr>timeLeft := 0\<rparr>, interval = None,
              pending = [initial\<lparr>isRunning := True\<rparr>,
                         initial\<lparr>timeLeft := 0, isRunning := True\<rparr>],
              user = Some ''u1''\<rparr>,
             [Insert \<lparr>duration = 25, type = ''study'', rowSubject = None, user_id = ''u1''\<rparr>,
              Insert \<lparr>duration = 25, type = ''study'', rowSubject = None, user_id = ''u1''\<rparr>])"
proof -
  have "run [IntervalFires False]
          \<lparr>page = initial\<lparr>timeLeft := 0, isRunning := True\<rparr>,
            interval = Some (initial\<lparr>timeLeft := 0, isRunning := True\<rparr>),
            pending = [initial\<lparr>isRunning := True\<rparr>], user = Some ''u1''\<rparr>
      = Some (\<lparr>page = initial\<lparr>timeLeft := 0\<rparr>, interval = None,
               pending = [initial\<lparr>isRunning := True\<rparr>,
                          initial\<lparr>timeLeft := 0, isRunning := True\<rparr>],
               user = Some ''u1''\<rparr>,
              [Insert \<lparr>duration = 25, type = ''study'', rowSubject = None, user_id = ''u1''\<rparr>])"
    by (simp add: dispatch_def tick_def handleSessionComplete_def useEffect_interval_def
        initial_def initialSettings_def)
  then show ?thesis
    using run_then [OF run_startWhileSaving] by simp
qed

lemma run_firstBreakRunning:
  "run firstBreakRunning (mount (Some ''u1''))
     = Some (\<lparr>page = initial\<lparr>currentSession := Break, sessionCount := 1, timeLeft := 300,
                             isRunning := True\<rparr>,
              interval = Some (initial\<lparr>timeLeft := 0, isRunning := True\<rparr>),
              pending = [], user = Some ''u1''\<rparr>,
             [Insert \<lparr>duration = 25, type = ''study'', rowSubject = None, user_id = ''u1''\<rparr>,
              FetchRecentSessions, Toast ''Study session finished.''])"
proof -
  have "run [InsertAnswers 0 None False]
          \<lparr>page = initial\<lparr>timeLeft := 0, isRunning := True\<rparr>,
            interval = Some (initial\<lparr>timeLeft := 0, isRunning := True\<rparr>),
            pending = [initial\<lparr>isRunning := True\<rparr>], user = Some ''u1''\<rparr>
      = Some (\<lparr>page = initial\<lparr>currentSession := Break, sessionCount := 1, timeLeft := 300,
                              isRunning := True\<rparr>,
               interval = Some (initial\<lparr>timeLeft := 0, isRunning := True\<rparr>),
               pending = [], user = Some ''u1''\<rparr>,
              [FetchRecentSessions, Toast ''Study session finished.''])"
    by (simp add: dispatch_def handleSessionComplete_resume_def handleSessionComplete_rest_def
        useEffect_interval_def js_rem_def finishedMessage_def initial_def initialSettings_def)
  then show ?thesis
    unfolding firstBreakRunning_def
    using run_then [OF run_startWhileSaving] by simp
qed

lemma run_breakAlmostOver:
  "run breakAlmostOver (mount (Some ''u1''))
     = Some (\<lparr>page = initial\<lparr>currentSession := Break, sessionCount := 1, timeLeft := 1,
                             isRunning := True\<rparr>,
              interval = Some (initial\<lparr>timeLeft := 0, isRunning := True\<rparr>),
              pending = [], user = Some ''u1''\<rparr>,
             [Insert \<lparr>duration = 25, type = ''study'', rowSubject = None, user_id = ''u1''\<rparr>,
              FetchRecentSessions, Toast ''Study session finished.''])"
proof -
  let ?c = "initial\<lparr>timeLeft := 0, isRunning := True\<rparr>"
  let ?a4 = "\<lparr>page = initial\<lparr>currentSession := Break, sessionCount := 1, timeLeft := 300,
                             isRunning := True\<rparr>,
              interval = Some ?c, pending = [], user = Some ''u1''\<rparr>"
  have "run (replicate 299 (IntervalFires False)) ?a4
      = Some (?a4\<lparr>page := (page ?a4)\<lparr>timeLeft := timeLeft (page ?a4) - int 299\<rparr>\<rparr>, [])"
    by (rule run_countdown) (simp_all add: initial_def)
  then have "run (replicate 299 (IntervalFires False)) ?a4
      = Some (\<lparr>page = initial\<lparr>currentSession := Break, sessionCount := 1, timeLeft := 1,
                              isRunning := True\<rparr>,
               interval = Some ?c, pending = [], user = Some ''u1''\<rparr>, [])"
    by (simp add: initial_def)
  then show ?thesis
    unfolding breakAlmostOver_def
    using run_then [OF run_firstBreakRunning] by simp
qed

lemma run_breakRunsOut:
  "run breakRunsOut (mount (Some ''u1''))
     = Some (\<lparr>page = initial\<lparr>currentSession := Break, sessionCount := 1, timeLeft := 0\<rparr>,
              interval = None,
              pending = [initial\<lparr>timeLeft := 0, isRunning := True\<rparr>], user = Some ''u1''\<rparr>,
             [Insert \<lparr>duration = 25, type = ''study'', rowSubject = None, user_id = ''u1''\<rparr>,
              FetchRecentSessions, Toast ''Study session finished.'',
              Insert \<lparr>duration = 25, type = ''study'', rowSubject = None, user_id = ''u1''\<rparr>])"
proof -
  have "run [IntervalFires False]
          \<lparr>page = initial\<lparr>currentSession := Break, sessionCount := 1, timeLeft := 1,
                           isRunning := True\<rparr>,
            interval = Some (initial\<lparr>timeLeft := 0, isRunning := True\<rparr>),
            pending = [], user = Some ''u1''\<rparr>
      = Some (\<lparr>page = initial\<lparr>currentSession := Break, sessionCount := 1, timeLeft := 0\<rparr>,
               interval = None,
               pending = [initial\<lparr>timeLeft := 0, isRunning := True\<rparr>],
               user = Some ''u1''\<rparr>,
              [Insert \<lparr>duration = 25, type = ''study'', rowSubject = None, user_id = ''u1''\<rparr>])"
    by (simp add: dispatch_def tick_def handleSessionComplete_def useEffect_interval_def
        initial_def initialSettings_def)
  then show ?thesis
    unfolding breakRunsOut_def
    using run_then [OF run_breakAlmostOver] by simp
qed

lemma run_breakOver:
  "run breakOver (mount (Some ''u1''))
     = Some (\<lparr>page = initial\<lparr>currentSession := Break, sessionCount := 1, timeLeft := 300\<rparr>,
              interval = None, pending = [], user = Some ''u1''\<rparr>,
             [Insert \<lparr>duration = 25, type = ''study'', rowSubject = None, user_id = ''u1''\<rparr>,
              FetchRecentSessions, Toast ''Study session finished.'',
              Insert \<lparr>duration = 25, type = ''study'', rowSubject = None, user_id = ''u1''\<rparr>,
              FetchRecentSessions, Toast ''Study session finished.''])"
proof -
  have "run [InsertAnswers 0 None False]
          \<lparr>page = initial\<lparr>currentSession := Break, sessionCount := 1, timeLeft := 0\<rparr>,
            interval = None,
            pending = [initial\<lparr>timeLeft := 0, isRunning := True\<rparr>], user = Some ''u1''\<rparr>
      = Some (\<lparr>page = initial\<lparr>currentSession := Break, sessionCount := 1, timeLeft := 300\<rparr>,
               interval = None, pending = [], user = Some ''u1''\<rparr>,
              [FetchRecentSessions, Toast ''Study session finished.''])"
    by (simp add: dispatch_def handleSessionComplete_resume_def handleSessionComplete_rest_def
        useEffect_interval_def js_rem_def finishedMessage_def initial_def initialSettings_def)
  then show ?thesis
    unfolding breakOver_def
    using run_then [OF run_breakRunsOut] by simp
qed

section \<open>Reset\<close>

text \<open>
  C1 (evaluated at a state the claim is wrong for). Reset is claimed to set the remaining
  seconds to \<open>studyDuration * 60\<close> from every state. When the first study session has run
  out and its insert has answered, the page is stopped in the short break with 300
  seconds. \<open>handleReset\<close> there returns to the study session with the timer stopped and
  the counter at zero, but leaves 300 seconds (the break's length) on the clock, not the
  1500 seconds of a study session.
\<close>

theorem handleReset_during_break:
  "run firstStudySessionSaved (mount (Some ''u1''))
     = Some (\<lparr>page = initial\<lparr>currentSession := Break, sessionCount := 1, timeLeft := 300\<rparr>,
              interval = None, pending = [], user = Some ''u1''\<rparr>,
             [Insert \<lparr>duration = 25, type = ''study'', rowSubject = None, user_id = ''u1''\<rparr>, FetchRecentSessions, Toast ''Study session finished.''])
   \<and> reachable \<lparr>page = initial\<lparr>currentSession := Break, sessionCount := 1, timeLeft := 300\<rparr>,
                 interval = None, pending = [], user = Some ''u1''\<rparr>
   \<and> handleReset (initial\<lparr>currentSession := Break, sessionCount := 1, timeLeft := 300\<rparr>)
       = initial\<lparr>timeLeft := 300\<rparr>
   \<and> page (fst (dispatch ClickReset
         \<lparr>page = initial\<lparr>currentSession := Break, sessionCount := 1, timeLeft := 300\<rparr>,
          interval = None, pending = [], user = Some ''u1''\<rparr>))
       = initial\<lparr>timeLeft := 300\<rparr>
   \<and> currentSession (initial\<lparr>timeLeft := 300\<rparr>) = Study
   \<and> studyDuration (settings (initial\<lparr>timeLeft := 300\<rparr>)) * 60 = 1500"
proof -
  have reset: "handleReset (initial\<lparr>currentSession := Break, sessionCount := 1, timeLeft := 300\<rparr>)
      = initial\<lparr>timeLeft := 300\<rparr>"
    by (simp add: handleReset_def initial_def initialSettings_def)
  have "reachable \<lparr>page = initial\<lparr>currentSession := Break, sessionCount := 1, timeLeft := 300\<rparr>,
                 interval = None, pending = [], user = Some ''u1''\<rparr>"
    using run_reachable [OF reachable_mount_u1 run_firstStudySessionSaved] .
  then show ?thesis
    using run_firstStudySessionSaved reset
    by (simp add: dispatch_def useEffect_interval_def) (simp add: initial_def initialSettings_def)
qed

section \<open>Stop, pause and start\<close>

text \<open>
  C7. \<open>handleStop\<close> leaves the timer stopped and not paused and sets the clock to the full
  length of the session it is in: \<open>studyDuration * 60\<close> in the study session,
  \<open>breakDuration * 60\<close> in the short break, \<open>longBreakDuration * 60\<close> in the long break. It
  changes neither the session, the counter, the settings nor the subject. \<open>handleStart\<close>
  after it only sets the timer running: same session, same counter, the full length on the
  clock. On the page, Stop in a running timer clears the interval and leaves the awaited
  inserts as they are; Start is then offered, and it creates the interval with the handler
  of that same session.
\<close>

theorem handleStop_then_handleStart:
  "\<not> isRunning (handleStop s) \<and> \<not> isPaused (handleStop s)
   \<and> (currentSession s = Study \<longrightarrow> timeLeft (handleStop s) = studyDuration (settings s) * 60)
   \<and> (currentSession s = Break \<longrightarrow> timeLeft (handleStop s) = breakDuration (settings s) * 60)
   \<and> (currentSession s = LongBreak \<longrightarrow>
        timeLeft (handleStop s) = longBreakDuration (settings s) * 60)
   \<and> currentSession (handleStop s) = currentSession s
   \<and> sessionCount (handleStop s) = sessionCount s
   \<and> settings (handleStop s) = settings s
   \<and> subject (handleStop s) = subject s
   \<and> handleStart (handleStop s) = (handleStop s)\<lparr>isRunning := True\<rparr>
   \<and> isRunning (handleStart (handleStop s)) \<and> \<not> isPaused (handleStart (handleStop s))
   \<and> currentSession (handleStart (handleStop s)) = currentSession s
   \<and> sessionCount (handleStart (handleStop s)) = sessionCount s
   \<and> timeLeft (handleStart (handleStop s)) = timeLeft (handleStop s)
   \<and> (isRunning (page a) \<longrightarrow>
        page (fst (dispatch ClickStop a)) = handleStop (page a)
        \<and> interval (fst (dispatch ClickStop a)) = None
        \<and> pending (fst (dispatch ClickStop a)) = pending a
        \<and> offered (fst (dispatch ClickStop a)) ClickStart
        \<and> page (fst (dispatch ClickStart (fst (dispatch ClickStop a))))
            = (handleStop (page a))\<lparr>isRunning := True\<rparr>
        \<and> interval (fst (dispatch ClickStart (fst (dispatch ClickStop a))))
            = Some ((handleStop (page a))\<lparr>isRunning := True\<rparr>))"
proof -
  have cells: "\<not> isRunning (handleStop s) \<and> \<not> isPaused (handleStop s)
      \<and> currentSession (handleStop s) = currentSession s
      \<and> sessionCount (handleStop s) = sessionCount s
      \<and> settings (handleStop s) = settings s \<and> subject (handleStop s) = subject s"
    by (simp add: handleStop_def)
  have clock: "(currentSession s = Study \<longrightarrow>
        timeLeft (handleStop s) = studyDuration (settings s) * 60)
      \<and> (currentSession s = Break \<longrightarrow> timeLeft (handleStop s) = breakDuration (settings s) * 60)
      \<and> (currentSession s = LongBreak \<longrightarrow>
        timeLeft (handleStop s) = longBreakDuration (settings s) * 60)"
    by (simp add: handleStop_def)
  have again: "handleStart (handleStop s') = (handleStop s')\<lparr>isRunning := True\<rparr>" for s'
    by (simp add: handleStop_def handleStart_def)
  have resumed: "isRunning (handleStart (handleStop s)) \<and> \<not> isPaused (handleStart (handleStop s))
      \<and> currentSession (handleStart (handleStop s)) = currentSession s
      \<and> sessionCount (handleStart (handleStop s)) = sessionCount s
      \<and> timeLeft (handleStart (handleStop s)) = timeLeft (handleStop s)"
    by (simp add: handleStop_def handleStart_def)
  have page: "isRunning (page a) \<longrightarrow>
        page (fst (dispatch ClickStop a)) = handleStop (page a)
        \<and> interval (fst (dispatch ClickStop a)) = None
        \<and> pending (fst (dispatch ClickStop a)) = pending a
        \<and> offered (fst (dispatch ClickStop a)) ClickStart"
    by (simp add: dispatch_def useEffect_interval_def) (simp add: handleStop_def)
  have restart: "isRunning (page a) \<longrightarrow>
        page (fst (dispatch ClickStart (fst (dispatch ClickStop a))))
            = (handleStop (page a))\<lparr>isRunning := True\<rparr>
        \<and> interval (fst (dispatch ClickStart (fst (dispatch ClickStop a))))
            = Some ((handleStop (page a))\<lparr>isRunning := True\<rparr>)"
    by (simp add: dispatch_def useEffect_interval_def again) (simp add: handleStop_def)
  show ?thesis
    using cells clock again [of s] resumed page restart by blast
qed

theorem handleStop_then_handleStart_witness:
  "currentSession (initial\<lparr>isRunning := True, timeLeft := 7\<rparr>) = Study
   \<and> timeLeft (handleStop (initial\<lparr>isRunning := True, timeLeft := 7\<rparr>)) = 1500
   \<and> currentSession (initial\<lparr>isRunning := True, timeLeft := 7, currentSession := Break\<rparr>) = Break
   \<and> timeLeft (handleStop (initial\<lparr>isRunning := True, timeLeft := 7, currentSession := Break\<rparr>))
      = 300
   \<and> currentSession (initial\<lparr>isRunning := True, timeLeft := 7, currentSession := LongBreak\<rparr>)
      = LongBreak
   \<and> timeLeft (handleStop
        (initial\<lparr>isRunning := True, timeLeft := 7, currentSession := LongBreak\<rparr>)) = 900
   \<and> isRunning (page \<lparr>page = initial\<lparr>isRunning := True, timeLeft := 7\<rparr>,
        interval = Some (initial\<lparr>isRunning := True\<rparr>), pending = [], user = Some ''u1''\<rparr>)
   \<and> fst (dispatch ClickStart (fst (dispatch ClickStop
        \<lparr>page = initial\<lparr>isRunning := True, timeLeft := 7\<rparr>,
         interval = Some (initial\<lparr>isRunning := True\<rparr>), pending = [], user = Some ''u1''\<rparr>)))
      = \<lparr>page = initial\<lparr>isRunning := True\<rparr>,
         interval = Some (initial\<lparr>isRunning := True\<rparr>), pending = [], user = Some ''u1''\<rparr>"
proof -
  let ?s = "initial\<lparr>isRunning := True, timeLeft := 7\<rparr>"
  let ?a = "\<lparr>page = ?s, interval = Some (initial\<lparr>isRunning := True\<rparr>), pending = [],
             user = Some ''u1''\<rparr>"
  have study: "currentSession ?s = Study"
    and short: "currentSession (?s\<lparr>currentSession := Break\<rparr>) = Break"
    and long: "currentSession (?s\<lparr>currentSession := LongBreak\<rparr>) = LongBreak"
    by (simp_all add: initial_def)
  have lengths: "studyDuration (settings initial) = 25" "breakDuration (settings initial) = 5"
    "longBreakDuration (settings initial) = 15"
    by (simp_all add: initial_def initialSettings_def)
  have t1: "timeLeft (handleStop ?s) = 1500"
    using handleStop_then_handleStart [of ?s ?a] study lengths by simp
  have t2: "timeLeft (handleStop (?s\<lparr>currentSession := Break\<rparr>)) = 300"
    using handleStop_then_handleStart [of "?s\<lparr>currentSession := Break\<rparr>" ?a] short lengths
    by simp
  have t3: "timeLeft (handleStop (?s\<lparr>currentSession := LongBreak\<rparr>)) = 900"
    using handleStop_then_handleStart [of "?s\<lparr>currentSession := LongBreak\<rparr>" ?a] long lengths
    by simp
  have run: "isRunning (page ?a)" by simp
  have stopped: "handleStop ?s = initial"
    by (simp add: handleStop_def initial_def initialSettings_def)
  have "page (fst (dispatch ClickStart (fst (dispatch ClickStop ?a))))
          = (handleStop (page ?a))\<lparr>isRunning := True\<rparr>
      \<and> interval (fst (dispatch ClickStart (fst (dispatch ClickStop ?a))))
          = Some ((handleStop (page ?a))\<lparr>isRunning := True\<rparr>)"
    using handleStop_then_handleStart [of ?s ?a] run by blast
  then have restart: "fst (dispatch ClickStart (fst (dispatch ClickStop ?a)))
      = \<lparr>page = initial\<lparr>isRunning := True\<rparr>,
         interval = Some (initial\<lparr>isRunning := True\<rparr>), pending = [], user = Some ''u1''\<rparr>"
    using stopped by (simp add: dispatch_def useEffect_interval_def)
  show ?thesis
    using study short long t1 t2 t3 run restart by simp
qed

lemma ticks_without_interval: "interval a = None \<Longrightarrow> ticks gs a = a"
  by (induction gs) (simp_all add: press_def)

text \<open>
  C8. In a running, unpaused timer Pause sets \<open>isPaused\<close> and nothing else and clears the
  interval; while paused the interval is not offered and firing it any number of times
  changes nothing and calls nothing; Resume then shows exactly the cells from before the
  pause, so the remaining seconds, the session and the counter are those before the pause,
  and the interval is created again.
\<close>

theorem handlePause_twice:
  assumes run: "isRunning (page a)" and unpaused: "\<not> isPaused (page a)"
  shows "handlePause (page a) = (page a)\<lparr>isPaused := True\<rparr>
     \<and> page (fst (dispatch ClickPause a)) = handlePause (page a)
     \<and> interval (fst (dispatch ClickPause a)) = None
     \<and> \<not> offered (fst (dispatch ClickPause a)) (IntervalFires g)
     \<and> tick g (fst (dispatch ClickPause a)) = (fst (dispatch ClickPause a), [])
     \<and> ticks gs (fst (dispatch ClickPause a)) = fst (dispatch ClickPause a)
     \<and> handlePause (handlePause (page a)) = page a
     \<and> page (fst (dispatch ClickPause (ticks gs (fst (dispatch ClickPause a))))) = page a
     \<and> timeLeft (page (fst (dispatch ClickPause (ticks gs (fst (dispatch ClickPause a))))))
         = timeLeft (page a)
     \<and> currentSession (page (fst (dispatch ClickPause (ticks gs (fst (dispatch ClickPause a))))))
         = currentSession (page a)
     \<and> sessionCount (page (fst (dispatch ClickPause (ticks gs (fst (dispatch ClickPause a))))))
         = sessionCount (page a)
     \<and> interval (fst (dispatch ClickPause (ticks gs (fst (dispatch ClickPause a)))))
         = Some (page a)"
proof -
  let ?b = "fst (dispatch ClickPause a)"
  have first: "handlePause (page a) = (page a)\<lparr>isPaused := True\<rparr>"
    using unpaused by (simp add: handlePause_def)
  have paused: "page ?b = handlePause (page a)" "interval ?b = None"
    using unpaused by (simp_all add: dispatch_def useEffect_interval_def handlePause_def)
  have quiet: "tick g ?b = (?b, [])"
    using paused by (simp add: tick_def)
  have still: "ticks gs ?b = ?b"
    using paused by (simp add: ticks_without_interval)
  have twice: "handlePause (handlePause (page a)) = page a"
    by (simp add: handlePause_def)
  have resumed: "page (fst (dispatch ClickPause ?b)) = page a"
    "interval (fst (dispatch ClickPause ?b)) = Some (page a)"
    using run unpaused paused
    by (simp_all add: dispatch_def useEffect_interval_def handlePause_def)
  show ?thesis
    using first paused quiet still twice resumed by simp
qed

theorem handlePause_twice_witness:
  "isRunning (page (fst (dispatch ClickStart (mount (Some ''u1'')))))
   \<and> \<not> isPaused (page (fst (dispatch ClickStart (mount (Some ''u1'')))))
   \<and> page (fst (dispatch ClickPause
        (ticks [False, True]
           (fst (dispatch ClickPause (fst (dispatch ClickStart (mount (Some ''u1''))))))))) 
      = page (fst (dispatch ClickStart (mount (Some ''u1''))))
   \<and> timeLeft (page (fst (dispatch ClickPause
        (ticks [False, True]
           (fst (dispatch ClickPause (fst (dispatch ClickStart (mount (Some ''u1'')))))))))) 
      = 1500"
proof -
  let ?a = "fst (dispatch ClickStart (mount (Some ''u1'')))"
  have run: "isRunning (page ?a)" and unpaused: "\<not> isPaused (page ?a)"
    and left: "timeLeft (page ?a) = 1500"
    by (simp_all add: dispatch_def useEffect_interval_def handleStart_def mount_def initial_def)
  note twice = handlePause_twice [OF run unpaused, of False "[False, True]"]
  have same: "page (fst (dispatch ClickPause (ticks [False, True] (fst (dispatch ClickPause ?a)))))
      = page ?a"
    using twice by blast
  show ?thesis
    unfolding same using run unpaused left by simp
qed

text \<open>
  C9. The Start button is offered exactly while the timer is not running. Pressed on a
  stopped timer it sets the timer running and not paused, changes no other cell, creates
  the interval and calls nothing. On a running timer, paused or not, there is no Start
  button: pressing Start changes nothing.
\<close>

theorem press_Start:
  "offered a ClickStart = (\<not> isRunning (page a))
   \<and> (\<not> isRunning (page a) \<longrightarrow>
        page (fst (press ClickStart a)) = (page a)\<lparr>isRunning := True, isPaused := False\<rparr>
        \<and> isRunning (page (fst (press ClickStart a)))
        \<and> \<not> isPaused (page (fst (press ClickStart a)))
        \<and> interval (fst (press ClickStart a)) = Some (page (fst (press ClickStart a)))
        \<and> pending (fst (press ClickStart a)) = pending a
        \<and> snd (press ClickStart a) = [])
   \<and> (isRunning (page a) \<longrightarrow> press ClickStart a = (a, []))"
  by (simp add: press_def dispatch_def useEffect_interval_def handleStart_def)

theorem press_Start_witness:
  "\<not> isRunning (page (mount (Some ''u1'')))
   \<and> press ClickStart (mount (Some ''u1''))
      = (\<lparr>page = initial\<lparr>isRunning := True\<rparr>, interval = Some (initial\<lparr>isRunning := True\<rparr>),
          pending = [], user = Some ''u1''\<rparr>, [])
   \<and> isRunning (page \<lparr>page = initial\<lparr>isRunning := True, isPaused := True\<rparr>,
        interval = None, pending = [], user = Some ''u1''\<rparr>)
   \<and> run [ClickStart, ClickPause] (mount (Some ''u1''))
      = Some (\<lparr>page = initial\<lparr>isRunning := True, isPaused := True\<rparr>,
               interval = None, pending = [], user = Some ''u1''\<rparr>, [])
   \<and> press ClickStart
        \<lparr>page = initial\<lparr>isRunning := True, isPaused := True\<rparr>,
         interval = None, pending = [], user = Some ''u1''\<rparr>
      = (\<lparr>page = initial\<lparr>isRunning := True, isPaused := True\<rparr>,
          interval = None, pending = [], user = Some ''u1''\<rparr>, [])"
proof -
  let ?b = "\<lparr>page = initial\<lparr>isRunning := True, isPaused := True\<rparr>,
             interval = None, pending = [], user = Some ''u1''\<rparr>"
  have stopped: "\<not> isRunning (page (mount (Some ''u1'')))"
    by (simp add: mount_def initial_def)
  have paused: "isRunning (page ?b)" by simp
  have started: "press ClickStart (mount (Some ''u1''))
      = (\<lparr>page = initial\<lparr>isRunning := True\<rparr>, interval = Some (initial\<lparr>isRunning := True\<rparr>),
          pending = [], user = Some ''u1''\<rparr>, [])"
    using press_Start [of "mount (Some ''u1'')"] stopped
    by (simp add: press_def dispatch_def useEffect_interval_def handleStart_def mount_def
        initial_def)
  have reached: "run [ClickStart, ClickPause] (mount (Some ''u1'')) = Some (?b, [])"
    by (simp add: dispatch_def useEffect_interval_def handleStart_def handlePause_def
        mount_def initial_def)
  have ignored: "press ClickStart ?b = (?b, [])"
    using press_Start [of ?b] paused by blast
  from stopped paused started reached ignored show ?thesis
    by blast
qed

section \<open>Completing a session\<close>

text \<open>
  C2 (evaluated at a run the claim is wrong for). A completed short break is claimed to
  be followed by the study session, with the clock at the study session's length. Start
  is clicked while the insert of the first study session is awaited, so the interval
  created then keeps the handler of a render that shows the study session with counter 0.
  The insert answers, the page goes to the short break and the break counts down with
  that interval. When the break runs out, the handler stops the timer, and when its insert
  has answered the page shows the short break again with 300 seconds, not the study
  session with 1500.
\<close>

theorem break_followed_by_break:
  "map_option (page \<circ> fst) (run breakAlmostOver (mount (Some ''u1'')))
     = Some (initial\<lparr>currentSession := Break, sessionCount := 1, timeLeft := 1,
                     isRunning := True\<rparr>)
   \<and> map_option (page \<circ> fst) (run breakRunsOut (mount (Some ''u1'')))
     = Some (initial\<lparr>currentSession := Break, sessionCount := 1, timeLeft := 0\<rparr>)
   \<and> map_option (page \<circ> fst) (run breakOver (mount (Some ''u1'')))
     = Some (initial\<lparr>currentSession := Break, sessionCount := 1, timeLeft := 300\<rparr>)
   \<and> studyDuration (settings initial) * 60 = 1500"
  by (simp add: run_breakAlmostOver run_breakRunsOut run_breakOver)
     (simp add: initial_def initialSettings_def)

text \<open>
  C5 (evaluated at a run the claim is wrong for). A completed short break is claimed to
  insert no row. After \<open>breakAlmostOver\<close> (Start clicked while the insert of the first
  study session is awaited, the insert answered, the short break down to its last second)
  one row has been inserted. When the short break runs out, the handler the interval kept
  takes the session for a study session and hands a second study row to the insert: two
  rows, while the counter shows one completed study session.
\<close>

theorem study_row_at_end_of_break:
  "map_option (currentSession \<circ> page \<circ> fst) (run breakAlmostOver (mount (Some ''u1'')))
     = Some Break
   \<and> map_option (inserts \<circ> snd) (run breakAlmostOver (mount (Some ''u1''))) = Some [\<lparr>duration = 25, type = ''study'', rowSubject = None, user_id = ''u1''\<rparr>]
   \<and> map_option (inserts \<circ> snd) (run breakRunsOut (mount (Some ''u1''))) = Some [\<lparr>duration = 25, type = ''study'', rowSubject = None, user_id = ''u1''\<rparr>, \<lparr>duration = 25, type = ''study'', rowSubject = None, user_id = ''u1''\<rparr>]
   \<and> map_option (sessionCount \<circ> page \<circ> fst) (run breakOver (mount (Some ''u1''))) = Some 1"
  by (simp add: run_breakAlmostOver run_breakRunsOut run_breakOver)

text \<open>
  C6. When the insert of a waiting run answers with an error, the page, the interval and
  the runs still waiting are exactly those after a successful answer: the cells are
  written by the same code from the same captured render. The calls made are those of the
  success case with the refresh of the recent-sessions list replaced by the line on the
  console. No row is inserted at the answer and the run waits no longer, so there is no
  retry; a run of the handler hands at most one row to the insert when it starts.
\<close>

theorem handleSessionComplete_insert_error:
  assumes "offered a (InsertAnswers i (Some err) granted)"
  shows "fst (dispatch (InsertAnswers i (Some err) granted) a)
           = fst (dispatch (InsertAnswers i None granted) a)
         \<and> page (fst (dispatch (InsertAnswers i (Some err) granted) a))
           = fst (handleSessionComplete_rest (pending a ! i) granted (page a))
         \<and> snd (dispatch (InsertAnswers i (Some err) granted) a)
           = map (\<lambda>x. if x = FetchRecentSessions
                       then ConsoleError ''Error saving session:'' err else x)
               (snd (dispatch (InsertAnswers i None granted) a))
         \<and> inserts (snd (dispatch (InsertAnswers i (Some err) granted) a)) = []
         \<and> length (pending (fst (dispatch (InsertAnswers i (Some err) granted) a)))
           = length (pending a) - 1
         \<and> interval (fst (dispatch (InsertAnswers i (Some err) granted) a)) = interval a
         \<and> length (inserts (snd (handleSessionComplete c g b))) \<le> 1"
proof -
  have waiting: "i < length (pending a)" using assms by simp
  have unchanged: "isRunning (fst (handleSessionComplete_rest c' granted p)) = isRunning p
      \<and> isPaused (fst (handleSessionComplete_rest c' granted p)) = isPaused p" for c' p
    by (simp add: handleSessionComplete_rest_def Let_def)
  have started: "length (inserts (snd (handleSessionComplete c g b))) \<le> 1"
    by (simp add: handleSessionComplete_def handleSessionComplete_rest_def Let_def
        split: session.split option.split)
  show ?thesis
    using waiting unchanged started
    by (simp add: dispatch_def handleSessionComplete_resume_def useEffect_interval_def)
       (simp add: handleSessionComplete_rest_def)
qed

theorem handleSessionComplete_insert_error_witness:
  "map_option (\<lambda>r. offered (fst r) (InsertAnswers 0 (Some ''timeout'') False))
      (run firstStudySession (mount (Some ''u1''))) = Some True
   \<and> map_option (\<lambda>r. fst (dispatch (InsertAnswers 0 (Some ''timeout'') False) (fst r)))
      (run firstStudySession (mount (Some ''u1'')))
     = map_option (\<lambda>r. fst (dispatch (InsertAnswers 0 None False) (fst r)))
      (run firstStudySession (mount (Some ''u1'')))
   \<and> map_option (\<lambda>r. dispatch (InsertAnswers 0 (Some ''timeout'') False) (fst r))
      (run firstStudySession (mount (Some ''u1'')))
     = Some (\<lparr>page = initial\<lparr>currentSession := Break, sessionCount := 1, timeLeft := 300\<rparr>,
              interval = None, pending = [], user = Some ''u1''\<rparr>,
             [ConsoleError ''Error saving session:'' ''timeout'',
              Toast ''Study session finished.''])"
proof -
  let ?a = "\<lparr>page = initial\<lparr>timeLeft := 0\<rparr>, interval = None,
             pending = [initial\<lparr>isRunning := True\<rparr>], user = Some ''u1''\<rparr>"
  have waiting: "offered ?a (InsertAnswers 0 (Some ''timeout'') False)"
    by simp
  note same = handleSessionComplete_insert_error [OF waiting]
  have equal: "fst (dispatch (InsertAnswers 0 (Some ''timeout'') False) ?a)
      = fst (dispatch (InsertAnswers 0 None False) ?a)"
    using same by blast
  have ok: "dispatch (InsertAnswers 0 None False) ?a
      = (\<lparr>page = initial\<lparr>currentSession := Break, sessionCount := 1, timeLeft := 300\<rparr>,
          interval = None, pending = [], user = Some ''u1''\<rparr>,
         [FetchRecentSessions, Toast ''Study session finished.''])"
    by (simp add: dispatch_def handleSessionComplete_resume_def handleSessionComplete_rest_def
        useEffect_interval_def js_rem_def finishedMessage_def initial_def initialSettings_def)
  have calls: "snd (dispatch (InsertAnswers 0 (Some ''timeout'') False) ?a)
      = map (\<lambda>x. if x = FetchRecentSessions
                  then ConsoleError ''Error saving session:'' ''timeout'' else x)
          (snd (dispatch (InsertAnswers 0 None False) ?a))"
    using same by blast
  have failed: "dispatch (InsertAnswers 0 (Some ''timeout'') False) ?a
      = (\<lparr>page = initial\<lparr>currentSession := Break, sessionCount := 1, timeLeft := 300\<rparr>,
          interval = None, pending = [], user = Some ''u1''\<rparr>,
         [ConsoleError ''Error saving session:'' ''timeout'',
          Toast ''Study session finished.''])"
    using equal calls unfolding ok by (simp add: prod_eq_iff)
  show ?thesis
    unfolding run_firstStudySession using waiting equal failed by simp
qed

section \<open>The cycle of sessions\<close>

lemma cyclePattern_4:
  "cyclePattern 4 = [Study, Break, Study, Break, Study, Break, Study, LongBreak]"
  by (simp add: cyclePattern_def numeral_eq_Suc)

text \<open>
  C3 (evaluated at a run the claim is wrong for). From Reset the sessions are claimed to
  follow the cycle, which for the initial settings begins study, short break, study.
  After Reset, with Start clicked while the insert of the first study session is awaited
  (\<open>firstBreakRunning\<close>, then \<open>breakOver\<close>), the page shows the study session, after the
  first completion the short break, and after the second completion the short break
  again, with the counter at 1.
\<close>

theorem cycle_broken_by_start_while_saving:
  "map_option (currentSession \<circ> page \<circ> fst) (run [ClickReset] (mount (Some ''u1'')))
     = Some Study
   \<and> map_option (currentSession \<circ> page \<circ> fst)
       (run (ClickReset # firstBreakRunning) (mount (Some ''u1''))) = Some Break
   \<and> map_option (currentSession \<circ> page \<circ> fst)
       (run (ClickReset # breakOver) (mount (Some ''u1''))) = Some Break
   \<and> map_option (sessionCount \<circ> page \<circ> fst)
       (run (ClickReset # breakOver) (mount (Some ''u1''))) = Some 1
   \<and> sessionsUntilLongBreak (settings initial) = 4
   \<and> take 3 (cyclePattern 4) = [Study, Break, Study]"
proof -
  have "run [] (mount (Some ''u1'')) = Some (mount (Some ''u1''), [])" by simp
  then have first: "map_option (currentSession \<circ> page \<circ> fst) (run [ClickReset] (mount (Some ''u1'')))
      = Some Study"
    by (simp only: run_reset_mount) (simp add: mount_def initial_def)
  show ?thesis
    using first
    by (simp add: run_reset_mount run_firstBreakRunning run_breakOver cyclePattern_4
        del: run.simps)
       (simp add: initial_def initialSettings_def)
qed

section \<open>The countdown\<close>

text \<open>
  C4 (evaluated at a state the claim is wrong for). Every tick of a running, unpaused
  timer is claimed to take exactly one second off, and the tick that reaches zero to start
  one completion before any further tick. While the insert of the first study session is
  awaited the page is stopped at 0 seconds with Start offered. After Start the timer runs
  unpaused at 0; the interval firing there leaves the clock at 0 and runs
  \<open>handleSessionComplete\<close> a second time for the same countdown, which hands a second
  row to the insert.
\<close>

theorem tick_at_zero:
  "map_option (page \<circ> fst) (run startWhileSaving (mount (Some ''u1'')))
     = Some (initial\<lparr>timeLeft := 0, isRunning := True\<rparr>)
   \<and> map_option (\<lambda>r. offered (fst r) (IntervalFires False))
       (run startWhileSaving (mount (Some ''u1''))) = Some True
   \<and> map_option (page \<circ> fst) (run (startWhileSaving @ [IntervalFires False]) (mount (Some ''u1'')))
     = Some (initial\<lparr>timeLeft := 0\<rparr>)
   \<and> map_option (inserts \<circ> snd)
       (run (startWhileSaving @ [IntervalFires False]) (mount (Some ''u1'')))
     = Some [\<lparr>duration = 25, type = ''study'', rowSubject = None, user_id = ''u1''\<rparr>, \<lparr>duration = 25, type = ''study'', rowSubject = None, user_id = ''u1''\<rparr>]"
  by (simp add: run_startWhileSaving run_startWhileSaving_tick)

section \<open>Changing a duration\<close>

text \<open>
  C10. Choosing a new study, break or long-break duration writes that field of the
  settings and nothing else; the remaining seconds stay as they were, also through a
  following Start, Pause and ordinary tick: after the change in a stopped timer, Start and
  one firing of the interval show one second less than before the change. The new study
  duration reaches the clock at the next Stop or Reset in the study session, or when a
  break completes whose handler was created after the change.
\<close>

theorem duration_change_keeps_timeLeft:
  "onStudyDurationChange v s = s\<lparr>settings := (settings s)\<lparr>studyDuration := v\<rparr>\<rparr>
   \<and> onBreakDurationChange v s = s\<lparr>settings := (settings s)\<lparr>breakDuration := v\<rparr>\<rparr>
   \<and> onLongBreakDurationChange v s = s\<lparr>settings := (settings s)\<lparr>longBreakDuration := v\<rparr>\<rparr>
   \<and> timeLeft (onStudyDurationChange v s) = timeLeft s
   \<and> timeLeft (onBreakDurationChange v s) = timeLeft s
   \<and> timeLeft (onLongBreakDurationChange v s) = timeLeft s
   \<and> timeLeft (handleStart (onStudyDurationChange v s)) = timeLeft s
   \<and> timeLeft (handlePause (handleStart (onStudyDurationChange v s))) = timeLeft s
   \<and> (\<not> isRunning (page a) \<longrightarrow>
        page (fst (dispatch (SelectStudyDuration v) a)) = onStudyDurationChange v (page a)
        \<and> interval (fst (dispatch (SelectStudyDuration v) a)) = interval a
        \<and> pending (fst (dispatch (SelectStudyDuration v) a)) = pending a
        \<and> page (fst (dispatch ClickStart (fst (dispatch (SelectStudyDuration v) a))))
            = handleStart (onStudyDurationChange v (page a)))
   \<and> (\<not> isRunning (page a) \<and> 1 < timeLeft (page a) \<longrightarrow>
        dispatch (IntervalFires g)
          (fst (dispatch ClickStart (fst (dispatch (SelectStudyDuration v) a))))
        = ((fst (dispatch ClickStart (fst (dispatch (SelectStudyDuration v) a))))
             \<lparr>page := (handleStart (onStudyDurationChange v (page a)))
                        \<lparr>timeLeft := timeLeft (page a) - 1\<rparr>\<rparr>, []))
   \<and> (currentSession s = Study \<longrightarrow>
        timeLeft (handleStop (onStudyDurationChange v s)) = v * 60
        \<and> timeLeft (handleReset (onStudyDurationChange v s)) = v * 60)
   \<and> (currentSession s \<noteq> Study \<longrightarrow>
        timeLeft (page (fst (handleSessionComplete (onStudyDurationChange v s) g b))) = v * 60)"
proof -
  have cells: "onStudyDurationChange v s = s\<lparr>settings := (settings s)\<lparr>studyDuration := v\<rparr>\<rparr>
      \<and> onBreakDurationChange v s = s\<lparr>settings := (settings s)\<lparr>breakDuration := v\<rparr>\<rparr>
      \<and> onLongBreakDurationChange v s
          = s\<lparr>settings := (settings s)\<lparr>longBreakDuration := v\<rparr>\<rparr>"
    by (simp add: onStudyDurationChange_def onBreakDurationChange_def
        onLongBreakDurationChange_def)
  have kept: "timeLeft (onStudyDurationChange v s) = timeLeft s
      \<and> timeLeft (onBreakDurationChange v s) = timeLeft s
      \<and> timeLeft (onLongBreakDurationChange v s) = timeLeft s
      \<and> timeLeft (handleStart (onStudyDurationChange v s)) = timeLeft s
      \<and> timeLeft (handlePause (handleStart (onStudyDurationChange v s))) = timeLeft s"
    by (simp add: onStudyDurationChange_def onBreakDurationChange_def
        onLongBreakDurationChange_def handleStart_def handlePause_def)
  have chosen: "\<not> isRunning (page a) \<longrightarrow>
        page (fst (dispatch (SelectStudyDuration v) a)) = onStudyDurationChange v (page a)
        \<and> interval (fst (dispatch (SelectStudyDuration v) a)) = interval a
        \<and> pending (fst (dispatch (SelectStudyDuration v) a)) = pending a
        \<and> page (fst (dispatch ClickStart (fst (dispatch (SelectStudyDuration v) a))))
            = handleStart (onStudyDurationChange v (page a))"
    by (simp add: dispatch_def useEffect_interval_def onStudyDurationChange_def)
  have counts: "\<not> isRunning (page a) \<and> 1 < timeLeft (page a) \<longrightarrow>
        dispatch (IntervalFires g)
          (fst (dispatch ClickStart (fst (dispatch (SelectStudyDuration v) a))))
        = ((fst (dispatch ClickStart (fst (dispatch (SelectStudyDuration v) a))))
             \<lparr>page := (handleStart (onStudyDurationChange v (page a)))
                        \<lparr>timeLeft := timeLeft (page a) - 1\<rparr>\<rparr>, [])"
    by (simp add: dispatch_def useEffect_interval_def tick_def onStudyDurationChange_def
        handleStart_def)
  have later: "currentSession s = Study \<longrightarrow>
        timeLeft (handleStop (onStudyDurationChange v s)) = v * 60
        \<and> timeLeft (handleReset (onStudyDurationChange v s)) = v * 60"
    by (simp add: onStudyDurationChange_def handleStop_def handleReset_def)
  have completed: "currentSession s \<noteq> Study \<longrightarrow>
        timeLeft (page (fst (handleSessionComplete (onStudyDurationChange v s) g b))) = v * 60"
    by (cases "currentSession s")
      (simp_all add: onStudyDurationChange_def handleSessionComplete_def
        handleSessionComplete_rest_def Let_def)
  show ?thesis
    using cells kept chosen counts later completed by blast
qed

theorem duration_change_keeps_timeLeft_witness:
  "offered (mount (Some ''u1'')) (SelectStudyDuration 45)
   \<and> \<not> isRunning (page (mount (Some ''u1''))) \<and> 1 < timeLeft (page (mount (Some ''u1'')))
   \<and> currentSession initial = Study
   \<and> studyDuration (settings (page (fst (dispatch (SelectStudyDuration 45)
        (mount (Some ''u1'')))))) = 45
   \<and> timeLeft (page (fst (dispatch (SelectStudyDuration 45) (mount (Some ''u1''))))) = 1500
   \<and> timeLeft (page (fst (dispatch (IntervalFires False)
        (fst (dispatch ClickStart (fst (dispatch (SelectStudyDuration 45)
          (mount (Some ''u1'')))))))))
      = 1499
   \<and> timeLeft (handleStop (onStudyDurationChange 45 initial)) = 2700
   \<and> timeLeft (handleReset (onStudyDurationChange 45 initial)) = 2700"
proof -
  let ?a = "mount (Some ''u1'')"
  have shown: "offered ?a (SelectStudyDuration 45)"
    and stopped: "\<not> isRunning (page ?a)" and left: "timeLeft (page ?a) = 1500"
    and first: "page ?a = initial" and study: "currentSession initial = Study"
    by (simp_all add: mount_def initial_def)
  note change = duration_change_keeps_timeLeft [of 45 initial ?a False ?a]
  have chosen: "page (fst (dispatch (SelectStudyDuration 45) ?a))
      = onStudyDurationChange 45 (page ?a)"
    using change stopped by blast
  have kept: "timeLeft (onStudyDurationChange 45 initial) = timeLeft initial"
    using change by blast
  have new: "studyDuration (settings (onStudyDurationChange 45 initial)) = 45"
    by (simp add: onStudyDurationChange_def)
  have "dispatch (IntervalFires False)
          (fst (dispatch ClickStart (fst (dispatch (SelectStudyDuration 45) ?a))))
        = ((fst (dispatch ClickStart (fst (dispatch (SelectStudyDuration 45) ?a))))
             \<lparr>page := (handleStart (onStudyDurationChange 45 (page ?a)))
                        \<lparr>timeLeft := timeLeft (page ?a) - 1\<rparr>\<rparr>, [])"
    using change stopped left by simp
  then have counts: "timeLeft (page (fst (dispatch (IntervalFires False)
        (fst (dispatch ClickStart (fst (dispatch (SelectStudyDuration 45) ?a))))))) = 1499"
    using left by simp
  have later: "timeLeft (handleStop (onStudyDurationChange 45 initial)) = 45 * 60
      \<and> timeLeft (handleReset (onStudyDurationChange 45 initial)) = 45 * 60"
    using change study by blast
  show ?thesis
    using shown stopped left first study chosen kept new counts later by simp
qed

end
